theory Spec2Isabelle
  imports Main
begin

unbundle bit_operations_syntax

section \<open>The autotype key-injection engine (src/os/linux/xsendstring.cpp)\<close>

text \<open>
  A shallow embedding of \<^verbatim>\<open>xsendstring.cpp\<close>. The X server and the C library are the
  environment of the code: every query the code makes (\<^verbatim>\<open>XKeysymToKeycode\<close>,
  \<^verbatim>\<open>XGetKeyboardMapping\<close>, \<^verbatim>\<open>XGetModifierMapping\<close>, \<^verbatim>\<open>XQueryExtension\<close>, ...) is a
  field of the record \<open>xserver\<close>, and the theorems hold for every such record. The
  requests the code sends to the server are appended to a trace kept in the state, and
  the process-wide variables of the file (\<^verbatim>\<open>atGlobals\<close>, the statics of \<^verbatim>\<open>UseXTest\<close>, the
  registered Xlib error handler) are fields of the state.

  \<^verbatim>\<open>wchar_t\<close> values are modelled by \<open>int\<close> (the value of the C integer, signed or
  unsigned: the code only compares it and ORs a constant into values below
  \<^verbatim>\<open>0x110000\<close>); \<^verbatim>\<open>KeySym\<close>, \<^verbatim>\<open>KeyCode\<close>, modifier masks and windows by \<open>nat\<close>.
\<close>

subsection \<open>Constants of the X11 headers\<close>

text \<open>Values as in \<^verbatim>\<open>X11/X.h\<close> and \<^verbatim>\<open>X11/keysymdef.h\<close>.\<close>

definition NoSymbol :: nat where "NoSymbol = 0"
definition XK_BackSpace :: nat where "XK_BackSpace = 0xff08"
definition XK_Tab :: nat where "XK_Tab = 0xff09"
definition XK_Linefeed :: nat where "XK_Linefeed = 0xff0a"
definition XK_Return :: nat where "XK_Return = 0xff0d"
definition XK_Escape :: nat where "XK_Escape = 0xff1b"
definition XK_Delete :: nat where "XK_Delete = 0xffff"
definition XK_Mode_switch :: nat where "XK_Mode_switch = 0xff7e"
definition XK_ISO_Level3_Shift :: nat where "XK_ISO_Level3_Shift = 0xfe03"
definition XK_Shift_L :: nat where "XK_Shift_L = 0xffe1"
definition ShiftMask :: nat where "ShiftMask = 1"
definition KeyPressMask :: nat where "KeyPressMask = 1"
definition Mod1MapIndex :: nat where "Mod1MapIndex = 3"
definition CurrentTime :: nat where "CurrentTime = 0"

lemmas x11_defs = NoSymbol_def XK_BackSpace_def XK_Tab_def XK_Linefeed_def XK_Return_def
  XK_Escape_def XK_Delete_def XK_Mode_switch_def XK_ISO_Level3_Shift_def XK_Shift_L_def
  ShiftMask_def KeyPressMask_def Mod1MapIndex_def CurrentTime_def

subsection \<open>Data\<close>

text \<open>\<^verbatim>\<open>struct _KeyPress { KeyCode code; unsigned int state; }\<close>\<close>

record KeyPressInfo =
  kp_code :: nat
  kp_state :: nat

text \<open>
  Modelled from the spec: the declaration of \<^verbatim>\<open>pws_os::AutotypeMethod\<close>
  (\<^verbatim>\<open>xsendstring.h\<close>) is not among the sources. The spec gives the strategy preference
  the two values prefer-native and force-fallback; the source names the forcing value
  \<^verbatim>\<open>ATMETHOD_XSENDKEYS\<close> and compares with nothing else.
\<close>

datatype AutotypeMethod = ATMETHOD_PREFER_NATIVE | ATMETHOD_XSENDKEYS

text \<open>\<^verbatim>\<open>XErrorEvent\<close>: the two fields the handler reads.\<close>

record XErrorEvent =
  error_code :: nat
  request_code :: nat

text \<open>\<^verbatim>\<open>XModifierKeymap\<close>: \<open>modifiermap mm i\<close> is entry \<open>i\<close> of the keycode array, which
  Xlib allocates with \<open>8 * max_keypermod\<close> entries.\<close>

record XModifierKeymap =
  max_keypermod :: nat
  modifiermap :: "nat \<Rightarrow> nat"

datatype event_type = KeyPress | KeyRelease

text \<open>\<^verbatim>\<open>XKeyEvent\<close>, the fields that the code sets after construction.\<close>

record XKeyEvent =
  ev_type :: event_type
  ev_window :: nat
  ev_keycode :: nat
  ev_state :: nat
  ev_time :: nat

text \<open>The requests that act on the server or on the pace of the call.\<close>

datatype xrequest =
    XTestFakeKeyEvent nat bool nat
  | XSendEvent nat bool nat XKeyEvent
  | XFlush
  | XTestGrabControl bool
  | XSync bool
  | sleep_ms nat

text \<open>The handler that \<^verbatim>\<open>XSetErrorHandler\<close> has registered for the process: Xlib's default
  one (what \<^verbatim>\<open>XSetErrorHandler(NULL)\<close> selects), this file's \<^verbatim>\<open>ErrorHandler\<close>, or a
  handler of some other part of the process.\<close>

datatype xhandler = DefaultHandler | AutotypeErrorHandler | OtherHandler nat

text \<open>
  The environment. \<open>XGetKeyboardMapping srv kc\<close> is \<open>None\<close> when Xlib returns
  \<^verbatim>\<open>NULL\<close>, and otherwise the returned array, whose length is the reported
  \<^verbatim>\<open>keysyms_per_keycode\<close> (the code asks for one keycode). \<open>xerrors_during_key srv k\<close>
  are the error events that Xlib hands to the registered handler while keypress
  number \<open>k\<close> is sent, \<open>xerrors_at_end srv\<close> those of the closing
  \<^verbatim>\<open>XTestGrabControl\<close> or \<^verbatim>\<open>XSync\<close>. \<open>wcrtomb srv wc\<close> is \<open>None\<close> when the C function
  returns \<^verbatim>\<open>(size_t)-1\<close>.
\<close>

record xserver =
  XOpenDisplay :: bool
  XGetInputFocus :: nat
  XKeysymToKeycode :: "nat \<Rightarrow> nat"
  XGetKeyboardMapping :: "nat \<Rightarrow> nat list option"
  XGetModifierMapping :: "XModifierKeymap option"
  XQueryExtension_XTEST :: bool
  XGetErrorText :: "nat \<Rightarrow> nat \<Rightarrow> string"
  XKeysymToString :: "nat \<Rightarrow> string option"
  wcrtomb :: "int \<Rightarrow> string option"
  xerrors_during_key :: "nat \<Rightarrow> XErrorEvent list"
  xerrors_at_end :: "XErrorEvent list"

text \<open>\<^verbatim>\<open>atGlobals\<close>, the statics \<^verbatim>\<open>useXTest\<close> and \<^verbatim>\<open>checked\<close> of \<^verbatim>\<open>UseXTest\<close>, the registered
  error handler, and the trace of requests.\<close>

record autotype_state =
  error_detected :: bool
  errorString :: string
  xerror_handler :: xhandler
  checked :: bool
  useXTest :: bool
  requests :: "xrequest list"

datatype fault = OutOfBounds

datatype outcome = Returned | Threw_autotype_exception | Crashed fault

subsection \<open>printf conversions\<close>

definition digit_char :: "nat \<Rightarrow> char" where
  "digit_char d = (if d < 10 then char_of (48 + d) else char_of (55 + d))"

fun dec_nat :: "nat \<Rightarrow> string" where
  "dec_nat n = (if n < 10 then [digit_char n] else dec_nat (n div 10) @ [digit_char (n mod 10)])"

fun hex_nat :: "nat \<Rightarrow> string" where
  "hex_nat n = (if n < 16 then [digit_char n] else hex_nat (n div 16) @ [digit_char (n mod 16)])"

declare dec_nat.simps [simp del] hex_nat.simps [simp del]

text \<open>\<^verbatim>\<open>%04X\<close> and \<^verbatim>\<open>%#X\<close> of an \<^verbatim>\<open>int\<close> argument, which printf reads as a 32-bit unsigned.\<close>

definition printf_04X :: "int \<Rightarrow> string" where
  "printf_04X i = (let h = hex_nat (nat (i mod 2 ^ 32)) in replicate (4 - length h) (CHR ''0'') @ h)"

definition printf_hash_X :: "int \<Rightarrow> string" where
  "printf_hash_X i = (let v = nat (i mod 2 ^ 32) in if v = 0 then ''0'' else ''0X'' @ hex_nat v)"

text \<open>\<^verbatim>\<open>snprintf(buf, size, ...)\<close> keeps at most one character fewer than the size given.\<close>

definition snprintf :: "nat \<Rightarrow> string \<Rightarrow> string" where
  "snprintf n text = take (n - 1) text"

subsection \<open>ErrorHandler\<close>

text \<open>\<^verbatim>\<open>NumberOf(xmsg) = 512\<close>, \<^verbatim>\<open>NumberOf(atGlobals.errorString) = 1024\<close>.\<close>

definition ErrorHandler :: "xserver \<Rightarrow> XErrorEvent \<Rightarrow> autotype_state \<Rightarrow> autotype_state" where
  "ErrorHandler srv event s =
     (let s1 = s\<lparr>error_detected := True\<rparr>;
          xmsg = XGetErrorText srv (error_code event) (512 - 1)
      in s1\<lparr>errorString :=
            snprintf (1024 - 1) (''X error ('' @ dec_nat (request_code event) @ ''): '' @ xmsg)\<rparr>)"

text \<open>Xlib calls the registered handler for an error event. Handlers other than this
  file's are outside the model: they do not touch the state modelled here.\<close>

definition dispatch_xerror :: "xserver \<Rightarrow> autotype_state \<Rightarrow> XErrorEvent \<Rightarrow> autotype_state" where
  "dispatch_xerror srv s event =
     (if xerror_handler s = AutotypeErrorHandler then ErrorHandler srv event s else s)"

definition deliver_xerrors :: "xserver \<Rightarrow> XErrorEvent list \<Rightarrow> autotype_state \<Rightarrow> autotype_state" where
  "deliver_xerrors srv events s = foldl (dispatch_xerror srv) s events"

definition issue :: "xrequest list \<Rightarrow> autotype_state \<Rightarrow> autotype_state" where
  "issue rs s = s\<lparr>requests := requests s @ rs\<rparr>"

subsection \<open>The two ways of sending a key\<close>

definition XTest_SendEvent :: "XKeyEvent \<Rightarrow> xrequest" where
  "XTest_SendEvent event = XTestFakeKeyEvent (ev_keycode event) (ev_type event = KeyPress) 0"

definition XSendKeys_SendEvent :: "XKeyEvent \<Rightarrow> xrequest" where
  "XSendKeys_SendEvent event = XSendEvent (ev_window event) True KeyPressMask event"

definition XSendKeys_SendKeyEvent :: "xserver \<Rightarrow> XKeyEvent \<Rightarrow> xrequest list" where
  "XSendKeys_SendKeyEvent srv event =
     [XSendKeys_SendEvent (event\<lparr>ev_type := KeyPress\<rparr>),
      XSendKeys_SendEvent (event\<lparr>ev_type := KeyRelease\<rparr>),
      XFlush]"

definition XTest_SendKeyEvent :: "xserver \<Rightarrow> XKeyEvent \<Rightarrow> xrequest list" where
  "XTest_SendKeyEvent srv event =
     (let shiftEvent = event\<lparr>ev_keycode := XKeysymToKeycode srv XK_Shift_L\<rparr>;
          shifted = (ev_state event AND ShiftMask \<noteq> 0)
      in (if shifted then [XTest_SendEvent (shiftEvent\<lparr>ev_type := KeyPress\<rparr>)] else [])
         @ [XTest_SendEvent (event\<lparr>ev_type := KeyPress\<rparr>),
            XTest_SendEvent (event\<lparr>ev_type := KeyRelease\<rparr>)]
         @ (if shifted then [XTest_SendEvent (shiftEvent\<lparr>ev_type := KeyRelease\<rparr>)] else [])
         @ [XFlush])"

text \<open>\<^verbatim>\<open>UseXTest\<close> asks the server once and keeps the answer in its statics.\<close>

definition UseXTest :: "xserver \<Rightarrow> autotype_state \<Rightarrow> bool \<times> autotype_state" where
  "UseXTest srv s =
     (let s1 = (if \<not> checked s then s\<lparr>useXTest := XQueryExtension_XTEST srv, checked := True\<rparr> else s)
      in (useXTest s1, s1))"

subsection \<open>The modifier resolver\<close>

text \<open>The inner loop over \<^verbatim>\<open>symlist[0 .. keysyms_per_keycode)\<close> of \<^verbatim>\<open>FindModifierMask\<close> sets
  \<^verbatim>\<open>modmask\<close> exactly when \<^verbatim>\<open>sym\<close> occurs in the array.\<close>

function FindModifierMask_loop ::
  "xserver \<Rightarrow> XModifierKeymap \<Rightarrow> nat \<Rightarrow> nat \<Rightarrow> nat \<Rightarrow> nat" where
  "FindModifierMask_loop srv modmap keysym i modmask =
     (if i < 8 * max_keypermod modmap \<and> modmask = 0 then
        (let kc = modifiermap modmap i in
         if kc = 0 then FindModifierMask_loop srv modmap keysym (i + 1) modmask
         else (case XGetKeyboardMapping srv kc of
                 None \<Rightarrow> FindModifierMask_loop srv modmap keysym (i + 1) modmask
               | Some symlist \<Rightarrow>
                   FindModifierMask_loop srv modmap keysym (i + 1)
                     (if keysym \<in> set symlist then i div max_keypermod modmap else modmask)))
      else modmask)"
  by pat_completeness auto
termination
  by (relation "measure (\<lambda>(srv, modmap, keysym, i, modmask). 8 * max_keypermod modmap - i)") auto

declare FindModifierMask_loop.simps [simp del]

definition FindModifierMask :: "xserver \<Rightarrow> nat \<Rightarrow> nat" where
  "FindModifierMask srv keysym =
     (case XGetModifierMapping srv of
        None \<Rightarrow> 0
      | Some modmap \<Rightarrow>
          FindModifierMask_loop srv modmap keysym (Mod1MapIndex * max_keypermod modmap) 0)"

text \<open>The body of the loop over \<^verbatim>\<open>{XK_Mode_switch, XK_ISO_Level3_Shift}\<close>
  (\<^verbatim>\<open>1 << modshift\<close> is \<open>2 ^ modshift\<close>), and the loop.\<close>

definition add_extra_mask :: "xserver \<Rightarrow> nat list \<Rightarrow> nat \<Rightarrow> nat list" where
  "add_extra_mask srv masks s =
     (let modshift = FindModifierMask srv s in
      if modshift \<noteq> 0 \<and> 2 ^ modshift \<notin> set masks
      then (let extra_masks = map (\<lambda>m. m OR 2 ^ modshift) masks in masks @ extra_masks)
      else masks)"

definition candidate_masks :: "xserver \<Rightarrow> nat list" where
  "candidate_masks srv =
     foldl (add_extra_mask srv) [0, ShiftMask] [XK_Mode_switch, XK_ISO_Level3_Shift]"

text \<open>\<^verbatim>\<open>std::find(arr + i, arr + last, v) - arr\<close>, every read of the array checked against
  its length. (The iterator loop runs while \<^verbatim>\<open>first != last\<close>; it starts at \<open>0 \<le> last\<close>.)\<close>

function std_find :: "nat list \<Rightarrow> nat \<Rightarrow> nat \<Rightarrow> nat \<Rightarrow> fault + nat" where
  "std_find arr i last_i v =
     (if i < last_i then
        (if i < length arr then
           (if arr ! i = v then Inr i else std_find arr (i + 1) last_i v)
         else Inl OutOfBounds)
      else Inr last_i)"
  by pat_completeness auto
termination
  by (relation "measure (\<lambda>(arr, i, last_i, v). last_i - i)") auto

declare std_find.simps [simp del]

definition CalcModifiersForKeysym :: "xserver \<Rightarrow> nat \<Rightarrow> nat \<Rightarrow> fault + nat" where
  "CalcModifiersForKeysym srv code keysym =
     (case XGetKeyboardMapping srv code of
        None \<Rightarrow> Inr 0
      | Some symlist \<Rightarrow>
          if length symlist > 0 then
            (let masks = candidate_masks srv;
                 max_keysym_index = min (length masks) (length symlist)
             in case std_find symlist 0 max_keysym_index keysym of
                  Inl f \<Rightarrow> Inl f
                | Inr match_index \<Rightarrow>
                    if match_index \<noteq> max_keysym_index then
                      (if match_index < length masks then Inr (masks ! match_index)
                       else Inl OutOfBounds)
                    else Inr 0)
          else Inr 0)"

subsection \<open>The code-point resolver\<close>

text \<open>\<^verbatim>\<open>unicode2keysym\<close> (\<^verbatim>\<open>unicode2keysym.cpp\<close>) is not among the sources: it is the
  parameter \<open>unicode2keysym\<close> of every function that uses it.\<close>

definition wchar2keysym :: "(int \<Rightarrow> nat) \<Rightarrow> int \<Rightarrow> nat" where
  "wchar2keysym unicode2keysym wc =
     (if wc < 0x100 then
        (if wc \<ge> 0x20 then nat wc
         else if wc = 0x09 then XK_Tab
         else if wc = 0x0D then XK_Return
         else if wc = 0x0A then XK_Linefeed
         else if wc = 0x08 then XK_BackSpace
         else if wc = 0x7F then XK_Delete
         else if wc = 0x1B then XK_Escape
         else NoSymbol)
      else if wc > 0x10ffff \<or> (wc > 0x7e \<and> wc < 0xa0) then NoSymbol
      else (let keysym = unicode2keysym wc in
            if keysym \<noteq> NoSymbol then keysym else nat (wc OR 0x01000000)))"

text \<open>\<^verbatim>\<open>wchar2bytes\<close>: \<^verbatim>\<open>bytes\<close> is a \<^verbatim>\<open>char*\<close>, so \<^verbatim>\<open>NumberOf(bytes)\<close> is the size of a
  pointer, 8.\<close>

definition wchar2bytes :: "xserver \<Rightarrow> int \<Rightarrow> string" where
  "wchar2bytes srv wc =
     (case wcrtomb srv wc of
        None \<Rightarrow> snprintf 8 (''U+'' @ printf_04X wc)
      | Some bytes \<Rightarrow> bytes)"

subsection \<open>DoSendString and SendString\<close>

text \<open>The texts of lines 326 and 334, before \<^verbatim>\<open>snprintf\<close> cuts them to the buffer.\<close>

definition msg_no_keycode :: "xserver \<Rightarrow> int \<Rightarrow> nat \<Rightarrow> string" where
  "msg_no_keycode srv wc keysym =
     ''Could not get keycode for key char('' @ wchar2bytes srv wc
     @ '') - sym('' @ printf_hash_X (int keysym)
     @ '') - str('' @ (case XKeysymToString srv keysym of None \<Rightarrow> ''NULL'' | Some symStr \<Rightarrow> symStr)
     @ ''). Aborting autotype.'' @ [CHR 0x0A, CHR 0x0A]
     @ ''If '' @ [CHR 0x27] @ ''xmodmap -pk'' @ [CHR 0x27]
     @ '' does not list this KeySym, you probably need to install an appropriate keyboard layout.''"

definition msg_cannot_convert :: "xserver \<Rightarrow> int \<Rightarrow> string" where
  "msg_cannot_convert srv wc =
     ''Cannot convert '' @ [CHR 0x27] @ wchar2bytes srv wc @ [CHR 0x27]
     @ '' [U+'' @ printf_04X wc @ ''] to keysym. Aborting autotype''"

datatype resolution = Resolved "KeyPressInfo list" | Aborted | MemFault fault

text \<open>The loop of lines 307 to 339 over the characters that remain, with the keypresses
  collected so far. \<^verbatim>\<open>'\v'\<close> is \<open>0x0B\<close>. The early \<^verbatim>\<open>return\<close>s are \<open>Aborted\<close>.\<close>

fun resolve_keypresses ::
  "xserver \<Rightarrow> (int \<Rightarrow> nat) \<Rightarrow> int list \<Rightarrow> KeyPressInfo list \<Rightarrow> autotype_state
     \<Rightarrow> resolution \<times> autotype_state" where
  "resolve_keypresses srv unicode2keysym [] keypresses s = (Resolved keypresses, s)"
| "resolve_keypresses srv unicode2keysym (wc # rest) keypresses s =
     (if wc = 0x0B then resolve_keypresses srv unicode2keysym rest keypresses s
      else
        (let keysym = wchar2keysym unicode2keysym wc in
         if NoSymbol \<noteq> keysym then
           (let code = XKeysymToKeycode srv keysym in
            if code \<noteq> 0 then
              (case CalcModifiersForKeysym srv code keysym of
                 Inl f \<Rightarrow> (MemFault f, s)
               | Inr modifiers \<Rightarrow>
                   resolve_keypresses srv unicode2keysym rest
                     (keypresses @ [\<lparr>kp_code = code, kp_state = 0 OR modifiers\<rparr>]) s)
            else
              (Aborted, s\<lparr>errorString := snprintf 1024 (msg_no_keycode srv wc keysym),
                          error_detected := True\<rparr>))
         else
           (Aborted, s\<lparr>errorString := snprintf 1024 (msg_cannot_convert srv wc),
                       error_detected := True\<rparr>)))"

text \<open>The loop of lines 355 to 363; \<open>k\<close> counts the keypresses already sent.\<close>

fun send_keypresses ::
  "xserver \<Rightarrow> (xserver \<Rightarrow> XKeyEvent \<Rightarrow> xrequest list) \<Rightarrow> nat \<Rightarrow> nat \<Rightarrow> nat
     \<Rightarrow> KeyPressInfo list \<Rightarrow> autotype_state \<Rightarrow> autotype_state" where
  "send_keypresses srv KeySendFunction window delayMS k [] s = s"
| "send_keypresses srv KeySendFunction window delayMS k (itr # rest) s =
     (if error_detected s then s
      else
        (let event = \<lparr>ev_type = KeyPress, ev_window = window, ev_keycode = kp_code itr,
                      ev_state = kp_state itr, ev_time = CurrentTime\<rparr>;
             s1 = deliver_xerrors srv (xerrors_during_key srv k)
                    (issue (KeySendFunction srv event) s);
             s2 = issue [sleep_ms delayMS] s1
         in send_keypresses srv KeySendFunction window delayMS (k + 1) rest s2))"

text \<open>Lines 344 to 370: the choice of the sending function and the injection.\<close>

definition inject ::
  "xserver \<Rightarrow> AutotypeMethod \<Rightarrow> nat \<Rightarrow> KeyPressInfo list \<Rightarrow> autotype_state \<Rightarrow> autotype_state" where
  "inject srv method delayMS keypresses s =
     (case UseXTest srv s of (available, s1) \<Rightarrow>
        (let useXTEST = (available \<and> method \<noteq> ATMETHOD_XSENDKEYS);
             KeySendFunction = (if useXTEST then XTest_SendKeyEvent else XSendKeys_SendKeyEvent);
             s2 = (if useXTEST then issue [XTestGrabControl True] s1 else s1);
             s3 = send_keypresses srv KeySendFunction (XGetInputFocus srv) delayMS 0 keypresses s2;
             s4 = issue [if useXTEST then XTestGrabControl False else XSync False] s3
         in deliver_xerrors srv (xerrors_at_end srv) s4))"

definition DoSendString ::
  "xserver \<Rightarrow> (int \<Rightarrow> nat) \<Rightarrow> int list \<Rightarrow> AutotypeMethod \<Rightarrow> nat \<Rightarrow> autotype_state
     \<Rightarrow> outcome \<times> autotype_state" where
  "DoSendString srv unicode2keysym str method delayMS s0 =
     (let s1 = s0\<lparr>error_detected := False, errorString := []\<rparr> in
      if \<not> XOpenDisplay srv then
        (let s2 = (if \<not> error_detected s1 then s1\<lparr>error_detected := True\<rparr> else s1);
             s3 = (if errorString s2 = []
                   then s2\<lparr>errorString := ''Could not open X display for autotyping''\<rparr> else s2)
         in (Threw_autotype_exception, s3))
      else
        (case resolve_keypresses srv unicode2keysym str [] s1 of
           (MemFault f, s2) \<Rightarrow> (Crashed f, s2)
         | (Aborted, s2) \<Rightarrow> (Returned, s2)
         | (Resolved keypresses, s2) \<Rightarrow>
             (let s3 = s2\<lparr>xerror_handler := AutotypeErrorHandler\<rparr>;
                  s4 = s3\<lparr>error_detected := False\<rparr>;
                  s5 = inject srv method delayMS keypresses s4
              in (Returned, s5\<lparr>xerror_handler := DefaultHandler\<rparr>))))"

definition SendString ::
  "xserver \<Rightarrow> (int \<Rightarrow> nat) \<Rightarrow> int list \<Rightarrow> AutotypeMethod \<Rightarrow> nat \<Rightarrow> autotype_state
     \<Rightarrow> outcome \<times> autotype_state" where
  "SendString srv unicode2keysym str method delayMS s0 =
     (let s1 = s0\<lparr>error_detected := False, errorString := []\<rparr> in
      case DoSendString srv unicode2keysym str method delayMS s1 of
        (Returned, s2) \<Rightarrow>
          if error_detected s2 then (Threw_autotype_exception, s2) else (Returned, s2)
      | (other, s2) \<Rightarrow> (other, s2))"

text \<open>The two tests of the resolution loop (lines 317 and 319) that a character passes
  to become a keypress.\<close>

definition resolves :: "xserver \<Rightarrow> (int \<Rightarrow> nat) \<Rightarrow> int \<Rightarrow> bool" where
  "resolves srv unicode2keysym wc \<longleftrightarrow>
     wchar2keysym unicode2keysym wc \<noteq> NoSymbol
     \<and> XKeysymToKeycode srv (wchar2keysym unicode2keysym wc) \<noteq> 0"

text \<open>Which of the two sending paths a request belongs to: \<^verbatim>\<open>XTestFakeKeyEvent\<close> and
  \<^verbatim>\<open>XTestGrabControl\<close> are issued only by the XTest path, \<^verbatim>\<open>XSendEvent\<close> and \<^verbatim>\<open>XSync\<close> only
  by the \<^verbatim>\<open>XSendEvent\<close> path.\<close>

fun native_request :: "xrequest \<Rightarrow> bool" where
  "native_request (XTestFakeKeyEvent keycode is_press delay) = True"
| "native_request (XTestGrabControl impervious) = True"
| "native_request r = False"

fun fallback_request :: "xrequest \<Rightarrow> bool" where
  "fallback_request (XSendEvent window propagate event_mask event) = True"
| "fallback_request (XSync discard) = True"
| "fallback_request r = False"

text \<open>The key events proper: \<^verbatim>\<open>XTestFakeKeyEvent\<close> is what \<^verbatim>\<open>XTest_SendKeyEvent\<close> sends for a
  keypress, \<^verbatim>\<open>XSendEvent\<close> what \<^verbatim>\<open>XSendKeys_SendKeyEvent\<close> sends.\<close>

fun native_key_event :: "xrequest \<Rightarrow> bool" where
  "native_key_event (XTestFakeKeyEvent keycode is_press delay) = True"
| "native_key_event r = False"

fun fallback_key_event :: "xrequest \<Rightarrow> bool" where
  "fallback_key_event (XSendEvent window propagate event_mask event) = True"
| "fallback_key_event r = False"

subsection \<open>A concrete server\<close>

text \<open>A fragment of a four-level layout, for evaluating the functions: keycode 38 carries
  \<open>a\<close> and \<open>A\<close>, keycode 10 carries \<open>1\<close> and \<open>!\<close>, keycode 50 is the left shift key and
  keycode 92 is \<^verbatim>\<open>ISO_Level3_Shift\<close>, bound to the modifier \<^verbatim>\<open>Mod5\<close>.\<close>

definition demo_modmap :: XModifierKeymap where
  "demo_modmap = \<lparr>max_keypermod = 2,
     modifiermap = (\<lambda>i. if i = 0 then 50 else if i = 14 then 92 else 0)\<rparr>"

definition demo_server :: xserver where
  "demo_server = \<lparr>
     XOpenDisplay = True,
     XGetInputFocus = 7,
     XKeysymToKeycode = (\<lambda>k. if k = 0x61 \<or> k = 0x41 then 38
                              else if k = 0x31 \<or> k = 0x21 \<or> k = 0xa1 then 10
                              else if k = 0xffe1 then 50
                              else if k = 0xfe03 then 92 else 0),
     XGetKeyboardMapping = (\<lambda>kc. if kc = 38 then Some [0x61, 0x41, 0x61, 0x41]
                              else if kc = 10 then Some [0x31, 0x21, 0x31, 0x21, 0xb9, 0xa1]
                              else if kc = 50 then Some [0xffe1]
                              else if kc = 92 then Some [0xfe03]
                              else None),
     XGetModifierMapping = Some demo_modmap,
     XQueryExtension_XTEST = True,
     XGetErrorText = (\<lambda>code n. take n (if code = 3 then ''BadWindow'' else ''BadValue'')),
     XKeysymToString = (\<lambda>k. None),
     wcrtomb = (\<lambda>wc. if 0 < wc \<and> wc < 128 then Some [char_of wc] else None),
     xerrors_during_key = (\<lambda>k. []),
     xerrors_at_end = []\<rparr>"

definition demo_unicode2keysym :: "int \<Rightarrow> nat" where
  "demo_unicode2keysym wc = (if wc = 0x20AC then 0x20ac else 0)"

definition demo_state :: autotype_state where
  "demo_state = \<lparr>error_detected = False, errorString = [], xerror_handler = OtherHandler 1,
     checked = False, useXTest = False, requests = []\<rparr>"


section \<open>Properties\<close>

subsection \<open>Auxiliary facts\<close>

lemma wchar2keysym_NoSymbol_iff:
  "wchar2keysym u wc = NoSymbol \<longleftrightarrow>
     (wc < 0x20 \<and> wc \<notin> {0x08, 0x09, 0x0A, 0x0D, 0x1B}) \<or> wc > 0x10FFFF"
proof -
  have or_pos: "nat (wc OR 0x01000000) \<noteq> 0" if "0x100 \<le> wc"
  proof -
    have "wc \<le> wc OR 0x01000000" by (rule or_greater_eq) simp
    with that show ?thesis by simp
  qed
  show ?thesis
    using or_pos by (auto simp: wchar2keysym_def x11_defs Let_def)
qed

lemma wchar2keysym_latin1: "0x20 \<le> wc \<Longrightarrow> wc \<le> 0xFF \<Longrightarrow> wchar2keysym u wc = nat wc"
  by (simp add: wchar2keysym_def)

lemma wchar2keysym_table:
  "0x100 \<le> wc \<Longrightarrow> wc \<le> 0x10FFFF \<Longrightarrow>
   wchar2keysym u wc = (if u wc \<noteq> NoSymbol then u wc else nat (wc OR 0x01000000))"
  by (simp add: wchar2keysym_def Let_def)

lemma std_find_spec:
  "last_i \<le> length arr \<Longrightarrow> i \<le> last_i \<Longrightarrow>
   \<exists>j. std_find arr i last_i v = Inr j \<and> i \<le> j \<and> j \<le> last_i
       \<and> (j < last_i \<longrightarrow> arr ! j = v) \<and> (\<forall>k. i \<le> k \<and> k < j \<longrightarrow> arr ! k \<noteq> v)"
proof (induction arr i last_i v rule: std_find.induct)
  case (1 arr i last_i v)
  show ?case
  proof (cases "i < last_i")
    case False
    with "1.prems" show ?thesis by (subst std_find.simps) simp
  next
    case True
    note lt = this
    show ?thesis
    proof (cases "arr ! i = v")
      case True
      with lt "1.prems" show ?thesis by (subst std_find.simps) simp
    next
      case False
      from lt "1.prems" have "i < length arr" by simp
      from "1.IH" [OF lt this False] "1.prems" lt
      obtain j where j: "std_find arr (i + 1) last_i v = Inr j" "i + 1 \<le> j" "j \<le> last_i"
        "j < last_i \<longrightarrow> arr ! j = v" "\<forall>k. i + 1 \<le> k \<and> k < j \<longrightarrow> arr ! k \<noteq> v"
        by auto
      have "\<forall>k. i \<le> k \<and> k < j \<longrightarrow> arr ! k \<noteq> v"
      proof (intro allI impI)
        fix k assume "i \<le> k \<and> k < j"
        then show "arr ! k \<noteq> v" using False j(5) by (cases "k = i") auto
      qed
      with j lt False \<open>i < length arr\<close> show ?thesis
        by (subst std_find.simps) simp
    qed
  qed
qed

lemma CalcModifiersForKeysym_Inr:
  "\<exists>modifiers. CalcModifiersForKeysym srv code keysym = Inr modifiers"
proof (cases "XGetKeyboardMapping srv code")
  case None
  then show ?thesis by (simp add: CalcModifiersForKeysym_def)
next
  case (Some symlist)
  let ?n = "min (length (candidate_masks srv)) (length symlist)"
  from std_find_spec [of ?n symlist 0 keysym]
  obtain j where "std_find symlist 0 ?n keysym = Inr j" "j \<le> ?n" by auto
  with Some show ?thesis
    by (auto simp: CalcModifiersForKeysym_def Let_def)
qed




lemma resolve_keypresses_ok:
  "\<forall>wc\<in>set str. wc \<noteq> 0x0B \<longrightarrow> resolves srv u wc \<Longrightarrow>
   \<exists>kps. resolve_keypresses srv u str keypresses s = (Resolved kps, s)"
proof (induction str arbitrary: keypresses)
  case Nil
  show ?case by simp
next
  case (Cons wc rest)
  show ?case
  proof (cases "wc = 0x0B")
    case True
    with Cons show ?thesis by simp
  next
    case False
    with Cons.prems have r: "resolves srv u wc" by simp
    obtain m where m: "CalcModifiersForKeysym srv (XKeysymToKeycode srv (wchar2keysym u wc))
        (wchar2keysym u wc) = Inr m"
      using CalcModifiersForKeysym_Inr by blast
    from Cons.prems have "\<forall>wc\<in>set rest. wc \<noteq> 0x0B \<longrightarrow> resolves srv u wc" by simp
    from Cons.IH [OF this] False r m show ?thesis
      by (simp add: resolves_def Let_def)
  qed
qed

lemma resolve_keypresses_fail:
  "\<exists>wc\<in>set str. wc \<noteq> 0x0B \<and> \<not> resolves srv u wc \<Longrightarrow>
   \<exists>msg. resolve_keypresses srv u str keypresses s
     = (Aborted, s\<lparr>errorString := msg, error_detected := True\<rparr>)"
proof (induction str arbitrary: keypresses)
  case Nil
  then show ?case by simp
next
  case (Cons wc rest)
  show ?case
  proof (cases "wc = 0x0B")
    case True
    with Cons show ?thesis by simp
  next
    case vt: False
    show ?thesis
    proof (cases "resolves srv u wc")
      case False
      with vt show ?thesis by (auto simp: resolves_def Let_def)
    next
      case True
      with Cons.prems have "\<exists>wc\<in>set rest. wc \<noteq> 0x0B \<and> \<not> resolves srv u wc" by auto
      note ih = Cons.IH [OF this]
      obtain m where m: "CalcModifiersForKeysym srv (XKeysymToKeycode srv (wchar2keysym u wc))
          (wchar2keysym u wc) = Inr m"
        using CalcModifiersForKeysym_Inr by blast
      from ih vt True m show ?thesis
        by (simp add: resolves_def Let_def)
    qed
  qed
qed

lemma resolve_keypresses_filter:
  "resolve_keypresses srv u (filter (\<lambda>wc. wc \<noteq> 0x0B) str) keypresses s
     = resolve_keypresses srv u str keypresses s"
proof (induction str arbitrary: keypresses)
  case Nil
  show ?case by simp
next
  case (Cons wc rest)
  show ?case
  proof (cases "wc = 0x0B")
    case True
    with Cons show ?thesis by simp
  next
    case False
    with Cons show ?thesis
      by (simp add: Let_def split: sum.splits)
  qed
qed

lemma DoSendString_aborts:
  assumes "XOpenDisplay srv" and "\<exists>wc\<in>set str. wc \<noteq> 0x0B \<and> \<not> resolves srv u wc"
  shows "\<exists>msg. DoSendString srv u str method delayMS s
           = (Returned, s\<lparr>errorString := msg, error_detected := True\<rparr>)"
proof -
  from resolve_keypresses_fail [OF assms(2)]
  obtain msg where
    "resolve_keypresses srv u str [] (s\<lparr>error_detected := False, errorString := []\<rparr>)
       = (Aborted, s\<lparr>error_detected := False, errorString := []\<rparr>
            \<lparr>errorString := msg, error_detected := True\<rparr>)"
    by blast
  with assms(1) show ?thesis
    by (auto simp: DoSendString_def Let_def)
qed

lemma DoSendString_no_display:
  assumes "\<not> XOpenDisplay srv"
  shows "DoSendString srv u str method delayMS s
           = (Threw_autotype_exception,
              s\<lparr>errorString := ''Could not open X display for autotyping'',
                error_detected := True\<rparr>)"
  using assms by (simp add: DoSendString_def Let_def)

lemma DoSendString_injects:
  assumes "XOpenDisplay srv" and "\<forall>wc\<in>set str. wc \<noteq> 0x0B \<longrightarrow> resolves srv u wc"
  shows "\<exists>kps. DoSendString srv u str method delayMS s
           = (Returned,
              (inject srv method delayMS kps
                 (s\<lparr>errorString := [], xerror_handler := AutotypeErrorHandler,
                    error_detected := False\<rparr>))\<lparr>xerror_handler := DefaultHandler\<rparr>)"
proof -
  from resolve_keypresses_ok [OF assms(2)]
  obtain kps where
    "resolve_keypresses srv u str [] (s\<lparr>error_detected := False, errorString := []\<rparr>)
       = (Resolved kps, s\<lparr>error_detected := False, errorString := []\<rparr>)"
    by blast
  with assms(1) show ?thesis
    by (auto simp: DoSendString_def Let_def)
qed

lemma resolve_keypresses_length:
  "\<forall>wc\<in>set str. wc \<noteq> 0x0B \<longrightarrow> resolves srv u wc \<Longrightarrow>
   \<exists>kps. resolve_keypresses srv u str keypresses s = (Resolved kps, s)
     \<and> length kps = length keypresses + length (filter (\<lambda>wc. wc \<noteq> 0x0B) str)"
proof (induction str arbitrary: keypresses)
  case Nil
  show ?case by simp
next
  case (Cons wc rest)
  show ?case
  proof (cases "wc = 0x0B")
    case True
    with Cons show ?thesis by simp
  next
    case False
    with Cons.prems have r: "resolves srv u wc" by simp
    obtain m where m: "CalcModifiersForKeysym srv (XKeysymToKeycode srv (wchar2keysym u wc))
        (wchar2keysym u wc) = Inr m"
      using CalcModifiersForKeysym_Inr by blast
    from Cons.prems have "\<forall>wc\<in>set rest. wc \<noteq> 0x0B \<longrightarrow> resolves srv u wc" by simp
    from Cons.IH [OF this,
        of "keypresses @ [\<lparr>kp_code = XKeysymToKeycode srv (wchar2keysym u wc), kp_state = 0 OR m\<rparr>]"]
      False r m
    show ?thesis
      by (simp add: resolves_def Let_def)
  qed
qed

lemma DoSendString_injects_length:
  assumes "XOpenDisplay srv" and "\<forall>wc\<in>set str. wc \<noteq> 0x0B \<longrightarrow> resolves srv u wc"
  shows "\<exists>kps. DoSendString srv u str method delayMS s
           = (Returned,
              (inject srv method delayMS kps
                 (s\<lparr>errorString := [], xerror_handler := AutotypeErrorHandler,
                    error_detected := False\<rparr>))\<lparr>xerror_handler := DefaultHandler\<rparr>)
         \<and> length kps = length (filter (\<lambda>wc. wc \<noteq> 0x0B) str)"
proof -
  from resolve_keypresses_length [OF assms(2),
      of "[]" "s\<lparr>error_detected := False, errorString := []\<rparr>"]
  obtain kps where
    "resolve_keypresses srv u str [] (s\<lparr>error_detected := False, errorString := []\<rparr>)
       = (Resolved kps, s\<lparr>error_detected := False, errorString := []\<rparr>)"
    "length kps = length (filter (\<lambda>wc. wc \<noteq> 0x0B) str)"
    by auto
  with assms(1) show ?thesis
    by (auto simp: DoSendString_def Let_def)
qed

lemma SendString_aborts:
  assumes "\<exists>wc\<in>set str. wc \<noteq> 0x0B \<and> \<not> resolves srv u wc"
  shows "\<exists>msg. SendString srv u str method delayMS s
           = (Threw_autotype_exception, s\<lparr>errorString := msg, error_detected := True\<rparr>)"
proof (cases "XOpenDisplay srv")
  case False
  then have "SendString srv u str method delayMS s
      = (Threw_autotype_exception,
         s\<lparr>errorString := ''Could not open X display for autotyping'', error_detected := True\<rparr>)"
    by (simp add: SendString_def DoSendString_no_display)
  then show ?thesis by blast
next
  case True
  from DoSendString_aborts [OF True assms, of "method" delayMS
      "s\<lparr>error_detected := False, errorString := []\<rparr>"]
  show ?thesis
    by (auto simp: SendString_def)
qed

lemma CalcModifiersForKeysym_first_match:
  assumes "XGetKeyboardMapping srv code = Some symlist"
    and "i < length symlist" and "i < length (candidate_masks srv)"
    and "symlist ! i = keysym" and "\<forall>j<i. symlist ! j \<noteq> keysym"
  shows "CalcModifiersForKeysym srv code keysym = Inr (candidate_masks srv ! i)"
proof -
  let ?n = "min (length (candidate_masks srv)) (length symlist)"
  from std_find_spec [of ?n symlist 0 keysym]
  obtain j where j: "std_find symlist 0 ?n keysym = Inr j" "j \<le> ?n"
    "j < ?n \<longrightarrow> symlist ! j = keysym" "\<forall>k. k < j \<longrightarrow> symlist ! k \<noteq> keysym"
    by auto
  have "j \<le> i"
  proof (rule ccontr)
    assume "\<not> j \<le> i"
    then have "i < j" by simp
    with j(4) have "symlist ! i \<noteq> keysym" by simp
    with assms(4) show False by simp
  qed
  with assms(2,3) have "j < ?n" by simp
  with j(3) have "symlist ! j = keysym" by simp
  with assms(5) have "\<not> j < i" by blast
  with \<open>j \<le> i\<close> have "j = i" by simp
  moreover from assms(2,3) have "i \<noteq> ?n" and "symlist \<noteq> []" by auto
  ultimately show ?thesis using j(1) assms(1,2,3)
    by (simp add: CalcModifiersForKeysym_def Let_def)
qed

lemma CalcModifiersForKeysym_no_match:
  assumes "\<forall>symlist. XGetKeyboardMapping srv code = Some symlist \<longrightarrow>
      (\<forall>i. i < length (candidate_masks srv) \<and> i < length symlist \<longrightarrow> symlist ! i \<noteq> keysym)"
  shows "CalcModifiersForKeysym srv code keysym = Inr 0"
proof (cases "XGetKeyboardMapping srv code")
  case None
  then show ?thesis by (simp add: CalcModifiersForKeysym_def)
next
  case (Some symlist)
  let ?n = "min (length (candidate_masks srv)) (length symlist)"
  from std_find_spec [of ?n symlist 0 keysym]
  obtain j where j: "std_find symlist 0 ?n keysym = Inr j" "j \<le> ?n"
    "j < ?n \<longrightarrow> symlist ! j = keysym"
    by auto
  have "j = ?n"
  proof (rule ccontr)
    assume "j \<noteq> ?n"
    with j(2) have lt: "j < ?n" by linarith
    with j(3) have "symlist ! j = keysym" by simp
    moreover from lt assms Some have "symlist ! j \<noteq> keysym" by simp
    ultimately show False by simp
  qed
  with j(1) Some show ?thesis
    by (simp add: CalcModifiersForKeysym_def Let_def)
qed

lemma add_extra_mask_form:
  "\<exists>extra. add_extra_mask srv masks s = masks @ extra
     \<and> 0 \<notin> set extra \<and> ShiftMask \<notin> set extra
     \<and> (extra \<noteq> [] \<longrightarrow> FindModifierMask srv s \<noteq> 0 \<and> 2 ^ FindModifierMask srv s \<notin> set masks)"
proof (cases "FindModifierMask srv s \<noteq> 0 \<and> 2 ^ FindModifierMask srv s \<notin> set masks")
  case False
  then have "add_extra_mask srv masks s = masks @ []"
    by (auto simp: add_extra_mask_def Let_def)
  then show ?thesis by (metis empty_iff list.set(1))
next
  case True
  let ?k = "FindModifierMask srv s"
  let ?extra = "map (\<lambda>m. m OR 2 ^ ?k) masks"
  have bitk: "bit (m OR 2 ^ ?k) ?k" for m :: nat
    by (simp add: bit_or_iff bit_exp_iff)
  have "m OR 2 ^ ?k \<noteq> 0" and "m OR 2 ^ ?k \<noteq> Suc 0" for m :: nat
  proof -
    show "m OR 2 ^ ?k \<noteq> 0"
    proof
      assume "m OR 2 ^ ?k = 0"
      with bitk [of m] have "bit (0::nat) ?k" by simp
      then show False by simp
    qed
    from bitk [of m] True show "m OR 2 ^ ?k \<noteq> Suc 0"
      by (metis bit_Suc_0_iff)
  qed
  then have nz: "\<forall>m::nat. m OR 2 ^ ?k \<noteq> 0 \<and> m OR 2 ^ ?k \<noteq> Suc 0"
    by blast
  have "0 \<notin> set ?extra"
  proof
    assume "0 \<in> set ?extra"
    then obtain m :: nat where "m OR 2 ^ ?k = 0" by auto
    with nz show False by blast
  qed
  moreover have "ShiftMask \<notin> set ?extra"
  proof
    assume "ShiftMask \<in> set ?extra"
    then obtain m :: nat where "m OR 2 ^ ?k = Suc 0" by (auto simp: ShiftMask_def)
    with nz show False by blast
  qed
  moreover from True have "add_extra_mask srv masks s = masks @ ?extra"
    by (simp add: add_extra_mask_def Let_def)
  ultimately show ?thesis using True by blast
qed

lemma candidate_masks_form:
  "\<exists>extras. candidate_masks srv = [0, ShiftMask] @ extras
     \<and> 0 \<notin> set extras \<and> ShiftMask \<notin> set extras"
proof -
  from add_extra_mask_form [of srv "[0, ShiftMask]" XK_Mode_switch]
  obtain e1 where e1: "add_extra_mask srv [0, ShiftMask] XK_Mode_switch = [0, ShiftMask] @ e1"
    "0 \<notin> set e1" "ShiftMask \<notin> set e1" by blast
  from add_extra_mask_form [of srv "[0, ShiftMask] @ e1" XK_ISO_Level3_Shift]
  obtain e2 where e2: "add_extra_mask srv ([0, ShiftMask] @ e1) XK_ISO_Level3_Shift
      = ([0, ShiftMask] @ e1) @ e2"
    "0 \<notin> set e2" "ShiftMask \<notin> set e2" by blast
  from e1 e2 have "candidate_masks srv = [0, ShiftMask] @ (e1 @ e2)"
    by (simp add: candidate_masks_def)
  moreover from e1 e2 have "0 \<notin> set (e1 @ e2)" "ShiftMask \<notin> set (e1 @ e2)" by auto
  ultimately show ?thesis by blast
qed

lemma dispatch_xerror_frame:
  "requests (dispatch_xerror srv s event) = requests s
   \<and> checked (dispatch_xerror srv s event) = checked s
   \<and> useXTest (dispatch_xerror srv s event) = useXTest s
   \<and> xerror_handler (dispatch_xerror srv s event) = xerror_handler s"
  by (simp add: dispatch_xerror_def ErrorHandler_def)

lemma deliver_xerrors_frame:
  "requests (deliver_xerrors srv events s) = requests s
   \<and> checked (deliver_xerrors srv events s) = checked s
   \<and> useXTest (deliver_xerrors srv events s) = useXTest s
   \<and> xerror_handler (deliver_xerrors srv events s) = xerror_handler s"
  unfolding deliver_xerrors_def
  by (induction events arbitrary: s) (simp_all add: dispatch_xerror_frame)

lemma send_keypresses_frame:
  "checked (send_keypresses srv F window delayMS k keypresses s) = checked s
   \<and> useXTest (send_keypresses srv F window delayMS k keypresses s) = useXTest s"
  by (induction keypresses arbitrary: k s)
    (simp_all add: Let_def deliver_xerrors_frame issue_def)

lemma send_keypresses_requests:
  assumes "\<forall>event. \<forall>r\<in>set (F srv event). P r" and "P (sleep_ms delayMS)"
    and "\<forall>event. \<exists>r\<in>set (F srv event). Q r"
  shows "\<exists>new. requests (send_keypresses srv F window delayMS k keypresses s) = requests s @ new
           \<and> (\<forall>r\<in>set new. P r)
           \<and> (keypresses = [] \<longrightarrow> new = [])
           \<and> (keypresses \<noteq> [] \<and> \<not> error_detected s \<longrightarrow> (\<exists>r\<in>set new. Q r))"
proof (induction keypresses arbitrary: k s)
  case Nil
  show ?case by simp
next
  case (Cons itr rest)
  show ?case
  proof (cases "error_detected s")
    case True
    then show ?thesis by simp
  next
    case False
    define event where "event = \<lparr>ev_type = KeyPress, ev_window = window, ev_keycode = kp_code itr,
      ev_state = kp_state itr, ev_time = CurrentTime\<rparr>"
    define s2 where "s2 = issue [sleep_ms delayMS]
      (deliver_xerrors srv (xerrors_during_key srv k) (issue (F srv event) s))"
    have step: "requests s2 = requests s @ (F srv event @ [sleep_ms delayMS])"
      by (simp add: s2_def issue_def deliver_xerrors_frame)
    from Cons.IH [of "k + 1" s2]
    obtain new where new: "requests (send_keypresses srv F window delayMS (k + 1) rest s2)
        = requests s2 @ new" "\<forall>r\<in>set new. P r"
      by blast
    let ?all = "F srv event @ [sleep_ms delayMS] @ new"
    from assms(1,2) new(2) have "\<forall>r\<in>set ?all. P r" by auto
    moreover from assms(3) have "\<exists>r\<in>set ?all. Q r" by auto
    moreover from False new(1) step
    have "requests (send_keypresses srv F window delayMS k (itr # rest) s) = requests s @ ?all"
      by (simp add: Let_def event_def s2_def)
    ultimately show ?thesis by blast
  qed
qed

lemma key_event_is_request:
  "(native_key_event r \<longrightarrow> native_request r) \<and> (fallback_key_event r \<longrightarrow> fallback_request r)"
  by (cases r) simp_all

lemma XTest_SendKeyEvent_native:
  "\<forall>event. \<forall>r\<in>set (XTest_SendKeyEvent srv event). \<not> fallback_request r"
  by (auto simp: XTest_SendKeyEvent_def XTest_SendEvent_def Let_def)

lemma XTest_SendKeyEvent_key_event:
  "\<forall>event. \<exists>r\<in>set (XTest_SendKeyEvent srv event). native_key_event r"
  by (auto simp: XTest_SendKeyEvent_def XTest_SendEvent_def Let_def)

lemma XSendKeys_SendKeyEvent_fallback:
  "\<forall>event. \<forall>r\<in>set (XSendKeys_SendKeyEvent srv event). \<not> native_request r"
  by (auto simp: XSendKeys_SendKeyEvent_def XSendKeys_SendEvent_def)

lemma XSendKeys_SendKeyEvent_key_event:
  "\<forall>event. \<exists>r\<in>set (XSendKeys_SendKeyEvent srv event). fallback_key_event r"
  by (auto simp: XSendKeys_SendKeyEvent_def XSendKeys_SendEvent_def)

lemma inject_requests:
  assumes "checked s \<longrightarrow> useXTest s = XQueryExtension_XTEST srv" and "\<not> error_detected s"
  shows "\<exists>new. requests (inject srv method delayMS keypresses s) = requests s @ new
     \<and> checked (inject srv method delayMS keypresses s)
     \<and> useXTest (inject srv method delayMS keypresses s) = XQueryExtension_XTEST srv
     \<and> ((\<exists>r\<in>set new. native_request r)
          \<longleftrightarrow> XQueryExtension_XTEST srv \<and> method \<noteq> ATMETHOD_XSENDKEYS)
     \<and> ((\<exists>r\<in>set new. fallback_request r)
          \<longleftrightarrow> \<not> (XQueryExtension_XTEST srv \<and> method \<noteq> ATMETHOD_XSENDKEYS))
     \<and> ((\<exists>r\<in>set new. native_key_event r)
          \<longleftrightarrow> (XQueryExtension_XTEST srv \<and> method \<noteq> ATMETHOD_XSENDKEYS) \<and> keypresses \<noteq> [])
     \<and> ((\<exists>r\<in>set new. fallback_key_event r)
          \<longleftrightarrow> \<not> (XQueryExtension_XTEST srv \<and> method \<noteq> ATMETHOD_XSENDKEYS) \<and> keypresses \<noteq> [])"
proof -
  define s1 where
    "s1 = (if \<not> checked s then s\<lparr>useXTest := XQueryExtension_XTEST srv, checked := True\<rparr> else s)"
  from assms(1) have use: "UseXTest srv s = (XQueryExtension_XTEST srv, s1)"
    by (auto simp: UseXTest_def Let_def s1_def)
  have s1: "requests s1 = requests s" "checked s1" "useXTest s1 = XQueryExtension_XTEST srv"
    "\<not> error_detected s1"
    using assms by (auto simp: s1_def)
  show ?thesis
  proof (cases "XQueryExtension_XTEST srv \<and> method \<noteq> ATMETHOD_XSENDKEYS")
    case True
    define s2 where "s2 = issue [XTestGrabControl True] s1"
    define s3 where
      "s3 = send_keypresses srv XTest_SendKeyEvent (XGetInputFocus srv) delayMS 0 keypresses s2"
    from True use have inj: "inject srv method delayMS keypresses s
        = deliver_xerrors srv (xerrors_at_end srv) (issue [XTestGrabControl False] s3)"
      by (simp add: inject_def Let_def s2_def s3_def)
    from s1(4) have ne: "\<not> error_detected s2" by (simp add: s2_def issue_def)
    from send_keypresses_requests [of XTest_SendKeyEvent srv "\<lambda>r. \<not> fallback_request r"
        delayMS native_key_event "XGetInputFocus srv" 0 keypresses s2]
      XTest_SendKeyEvent_native [of srv] XTest_SendKeyEvent_key_event [of srv] ne
    obtain new where new: "requests s3 = requests s2 @ new" "\<forall>r\<in>set new. \<not> fallback_request r"
      "keypresses = [] \<longrightarrow> new = []" "keypresses \<noteq> [] \<longrightarrow> (\<exists>r\<in>set new. native_key_event r)"
      by (auto simp: s3_def)
    let ?all = "[XTestGrabControl True] @ new @ [XTestGrabControl False]"
    from new(1) s1(1)
    have "requests (inject srv method delayMS keypresses s) = requests s @ ?all"
      by (simp add: inj issue_def deliver_xerrors_frame s2_def)
    moreover from s1(2,3)
    have "checked (inject srv method delayMS keypresses s)
        \<and> useXTest (inject srv method delayMS keypresses s) = XQueryExtension_XTEST srv"
      by (simp add: inj issue_def deliver_xerrors_frame send_keypresses_frame s2_def s3_def)
    moreover have "\<exists>r\<in>set ?all. native_request r" by simp
    moreover from new(2) have nofb: "\<not> (\<exists>r\<in>set ?all. fallback_request r)" by simp
    moreover from new(3,4) have "(\<exists>r\<in>set ?all. native_key_event r) \<longleftrightarrow> keypresses \<noteq> []"
      by (cases "keypresses = []") auto
    moreover from nofb key_event_is_request have "\<not> (\<exists>r\<in>set ?all. fallback_key_event r)"
      by blast
    ultimately show ?thesis using True by blast
  next
    case False
    define s3 where
      "s3 = send_keypresses srv XSendKeys_SendKeyEvent (XGetInputFocus srv) delayMS 0 keypresses s1"
    from False have cond: "(XQueryExtension_XTEST srv \<and> method \<noteq> ATMETHOD_XSENDKEYS) = False"
      by simp
    from use have inj: "inject srv method delayMS keypresses s
        = deliver_xerrors srv (xerrors_at_end srv) (issue [XSync False] s3)"
      by (simp add: inject_def Let_def s3_def cond)
    from send_keypresses_requests [of XSendKeys_SendKeyEvent srv "\<lambda>r. \<not> native_request r"
        delayMS fallback_key_event "XGetInputFocus srv" 0 keypresses s1]
      XSendKeys_SendKeyEvent_fallback [of srv] XSendKeys_SendKeyEvent_key_event [of srv] s1(4)
    obtain new where new: "requests s3 = requests s1 @ new" "\<forall>r\<in>set new. \<not> native_request r"
      "keypresses = [] \<longrightarrow> new = []" "keypresses \<noteq> [] \<longrightarrow> (\<exists>r\<in>set new. fallback_key_event r)"
      by (auto simp: s3_def)
    let ?all = "new @ [XSync False]"
    from new(1) s1(1)
    have "requests (inject srv method delayMS keypresses s) = requests s @ ?all"
      by (simp add: inj issue_def deliver_xerrors_frame)
    moreover from s1(2,3)
    have "checked (inject srv method delayMS keypresses s)
        \<and> useXTest (inject srv method delayMS keypresses s) = XQueryExtension_XTEST srv"
      by (simp add: inj issue_def deliver_xerrors_frame send_keypresses_frame s3_def)
    moreover have "\<exists>r\<in>set ?all. fallback_request r" by simp
    moreover from new(2) have nonat: "\<not> (\<exists>r\<in>set ?all. native_request r)" by simp
    moreover from new(3,4) have "(\<exists>r\<in>set ?all. fallback_key_event r) \<longleftrightarrow> keypresses \<noteq> []"
      by (cases "keypresses = []") auto
    moreover from nonat key_event_is_request have "\<not> (\<exists>r\<in>set ?all. native_key_event r)"
      by blast
    ultimately show ?thesis using False by blast
  qed
qed

lemma not_in_take_nth:
  "keysym \<notin> set (take n symlist) \<Longrightarrow> i < n \<and> i < length symlist \<longrightarrow> symlist ! i \<noteq> keysym"
  by (metis in_set_conv_nth length_take min_less_iff_conj nth_take)

lemma demo_keyboard_mapping:
  "XGetKeyboardMapping demo_server 38 = Some [0x61, 0x41, 0x61, 0x41]"
  "XGetKeyboardMapping demo_server 10 = Some [0x31, 0x21, 0x31, 0x21, 0xb9, 0xa1]"
  "XGetKeyboardMapping demo_server 11 = None"
  by (simp_all add: demo_server_def)

lemma demo_FindModifierMask:
  "FindModifierMask demo_server XK_ISO_Level3_Shift = 7"
  "FindModifierMask demo_server XK_Mode_switch = 0"
  by (simp_all add: FindModifierMask_def FindModifierMask_loop.simps demo_server_def
      demo_modmap_def x11_defs)

lemma candidate_masks_demo: "candidate_masks demo_server = [0, 1, 128, 129]"
  by (simp add: candidate_masks_def add_extra_mask_def FindModifierMask_def
      FindModifierMask_loop.simps demo_server_def demo_modmap_def x11_defs Let_def)

subsection \<open>The claims\<close>

text \<open>
  C1. Resolution is all or nothing. For every input string, strategy and delay: if some
  character other than the vertical tab has no symbolic key (\<^verbatim>\<open>wchar2keysym\<close> returns
  \<^verbatim>\<open>NoSymbol\<close>) or its symbolic key has no keycode (\<^verbatim>\<open>XKeysymToKeycode\<close> returns 0), the call
  fails (\<^verbatim>\<open>SendString\<close> throws, \<^verbatim>\<open>DoSendString\<close> ends with the error flag set) and the trace
  of requests is the one before the call: no key event, and no other request of the
  injection phase, has been issued. The handler registration is untouched as well.
\<close>

theorem all_or_nothing:
  assumes "wc \<in> set str" and "wc \<noteq> 0x0B"
    and "wchar2keysym u wc = NoSymbol \<or> XKeysymToKeycode srv (wchar2keysym u wc) = 0"
  shows "fst (SendString srv u str method delayMS s) = Threw_autotype_exception
    \<and> requests (snd (SendString srv u str method delayMS s)) = requests s
    \<and> fst (DoSendString srv u str method delayMS s) \<noteq> Crashed OutOfBounds
    \<and> error_detected (snd (DoSendString srv u str method delayMS s))
    \<and> requests (snd (DoSendString srv u str method delayMS s)) = requests s
    \<and> xerror_handler (snd (DoSendString srv u str method delayMS s)) = xerror_handler s"
proof -
  from assms have bad: "\<exists>wc\<in>set str. wc \<noteq> 0x0B \<and> \<not> resolves srv u wc"
    by (auto simp: resolves_def)
  from SendString_aborts [OF bad, of "method" delayMS s]
  have send: "fst (SendString srv u str method delayMS s) = Threw_autotype_exception
    \<and> requests (snd (SendString srv u str method delayMS s)) = requests s"
    by auto
  have do_send: "fst (DoSendString srv u str method delayMS s) \<noteq> Crashed OutOfBounds
    \<and> error_detected (snd (DoSendString srv u str method delayMS s))
    \<and> requests (snd (DoSendString srv u str method delayMS s)) = requests s
    \<and> xerror_handler (snd (DoSendString srv u str method delayMS s)) = xerror_handler s"
  proof (cases "XOpenDisplay srv")
    case True
    from DoSendString_aborts [OF True bad, of "method" delayMS s] show ?thesis by auto
  next
    case False
    then show ?thesis by (simp add: DoSendString_no_display)
  qed
  from send do_send show ?thesis by simp
qed

theorem all_or_nothing_witness:
  "fst (SendString demo_server demo_unicode2keysym [0x61, 0x110000, 0x41]
      ATMETHOD_PREFER_NATIVE 10 demo_state) = Threw_autotype_exception
   \<and> requests (snd (SendString demo_server demo_unicode2keysym [0x61, 0x110000, 0x41]
      ATMETHOD_PREFER_NATIVE 10 demo_state)) = []"
  using all_or_nothing [of "0x110000" "[0x61, 0x110000, 0x41]" demo_unicode2keysym demo_server
      ATMETHOD_PREFER_NATIVE 10 demo_state]
  by (simp add: wchar2keysym_def demo_state_def)

text \<open>
  C2. The claim is that every code point from \<open>0x7F\<close> to \<open>0x9F\<close> fails to resolve. The
  test \<^verbatim>\<open>wc > 0x7e && wc < 0xa0\<close> of line 248 that would reject them is only reached
  when \<^verbatim>\<open>wc >= 0x100\<close>: line 236 has already returned the code point itself. At \<open>0x80\<close>
  the function returns the symbolic key \<open>0x80\<close>, and the call goes on to ask the server
  for its keycode.
\<close>

theorem wchar2keysym_gap_not_rejected:
  "wchar2keysym demo_unicode2keysym 0x80 = 0x80
   \<and> wchar2keysym demo_unicode2keysym 0x80 \<noteq> NoSymbol
   \<and> fst (resolve_keypresses demo_server demo_unicode2keysym [0x80] [] demo_state) = Aborted
   \<and> errorString (snd (resolve_keypresses demo_server demo_unicode2keysym [0x80] [] demo_state))
       = snprintf 1024 (msg_no_keycode demo_server 0x80 0x80)"
  by (simp add: wchar2keysym_def NoSymbol_def demo_server_def Let_def)

text \<open>
  C3. The claim is that the callback keeps the first error of a call. \<^verbatim>\<open>ErrorHandler\<close>
  has no test of the flag: each invocation sets the flag and writes the text of the
  error it was called with over the text that was there. With the flag set by a first
  error (\<^verbatim>\<open>BadWindow\<close> for request 25), a second error (\<^verbatim>\<open>BadValue\<close> for request 12)
  replaces the text; a call during whose closing \<^verbatim>\<open>XSync\<close> the server reports these
  two errors ends with the text of the second.
\<close>

theorem ErrorHandler_first_error_counterexample:
  "error_detected (ErrorHandler demo_server \<lparr>error_code = 3, request_code = 25\<rparr> demo_state)
   \<and> errorString (ErrorHandler demo_server \<lparr>error_code = 3, request_code = 25\<rparr> demo_state)
       = ''X error (25): BadWindow''
   \<and> errorString (ErrorHandler demo_server \<lparr>error_code = 2, request_code = 12\<rparr>
        (ErrorHandler demo_server \<lparr>error_code = 3, request_code = 25\<rparr> demo_state))
       = ''X error (12): BadValue''
   \<and> errorString (snd (DoSendString
        (demo_server\<lparr>xerrors_at_end := [\<lparr>error_code = 3, request_code = 25\<rparr>,
                                          \<lparr>error_code = 2, request_code = 12\<rparr>]\<rparr>)
        demo_unicode2keysym [0x61] ATMETHOD_XSENDKEYS 0 demo_state))
       = ''X error (12): BadValue''"
proof (intro conjI)
  show "error_detected (ErrorHandler demo_server \<lparr>error_code = 3, request_code = 25\<rparr> demo_state)"
    by (simp add: ErrorHandler_def)
  show "errorString (ErrorHandler demo_server \<lparr>error_code = 3, request_code = 25\<rparr> demo_state)
      = ''X error (25): BadWindow''"
    by (simp add: ErrorHandler_def demo_server_def snprintf_def dec_nat.simps digit_char_def
        char_of_def bit_Suc_0_iff)
  show "errorString (ErrorHandler demo_server \<lparr>error_code = 2, request_code = 12\<rparr>
        (ErrorHandler demo_server \<lparr>error_code = 3, request_code = 25\<rparr> demo_state))
      = ''X error (12): BadValue''"
    by (simp add: ErrorHandler_def demo_server_def snprintf_def dec_nat.simps digit_char_def
        char_of_def bit_Suc_0_iff)
  show "errorString (snd (DoSendString
        (demo_server\<lparr>xerrors_at_end := [\<lparr>error_code = 3, request_code = 25\<rparr>,
                                          \<lparr>error_code = 2, request_code = 12\<rparr>]\<rparr>)
        demo_unicode2keysym [0x61] ATMETHOD_XSENDKEYS 0 demo_state))
      = ''X error (12): BadValue''"
    by (simp add: DoSendString_def inject_def UseXTest_def deliver_xerrors_def
        dispatch_xerror_def issue_def ErrorHandler_def snprintf_def dec_nat.simps
        digit_char_def char_of_def bit_Suc_0_iff CalcModifiersForKeysym_def
        candidate_masks_def add_extra_mask_def FindModifierMask_def
        FindModifierMask_loop.simps std_find.simps wchar2keysym_def
        XSendKeys_SendKeyEvent_def XSendKeys_SendEvent_def
        demo_server_def demo_modmap_def demo_state_def x11_defs Let_def)
qed

text \<open>
  C3, as the code has it. Every invocation of the callback sets the error flag, so a
  flag that is set stays set, and replaces the error text by the formatted text of the
  error it was called with: after two invocations the state is the one that the
  second alone would have left.
\<close>

theorem ErrorHandler_records_latest:
  "error_detected (ErrorHandler srv event s)
   \<and> errorString (ErrorHandler srv event s)
       = snprintf 1023 (''X error ('' @ dec_nat (request_code event) @ ''): ''
                         @ XGetErrorText srv (error_code event) 511)
   \<and> ErrorHandler srv event2 (ErrorHandler srv event1 s) = ErrorHandler srv event2 s"
  by (simp add: ErrorHandler_def)

text \<open>
  C4. The claim is that the call leaves the handler registration as it found it. The
  call does not keep the handler that \<^verbatim>\<open>XSetErrorHandler(ErrorHandler)\<close> replaces; line
  372 registers \<^verbatim>\<open>NULL\<close>, Xlib's default handler. A process that had a handler of its
  own registered finds the default one after a call that reached the injection phase.
\<close>

theorem DoSendString_handler_counterexample:
  "xerror_handler demo_state = OtherHandler 1
   \<and> fst (DoSendString demo_server demo_unicode2keysym [0x61] ATMETHOD_XSENDKEYS 10 demo_state)
       = Returned
   \<and> xerror_handler
        (snd (DoSendString demo_server demo_unicode2keysym [0x61] ATMETHOD_XSENDKEYS 10 demo_state))
       = DefaultHandler"
  by (simp add: DoSendString_def CalcModifiersForKeysym_def
      candidate_masks_def add_extra_mask_def FindModifierMask_def
      FindModifierMask_loop.simps std_find.simps wchar2keysym_def
      demo_server_def demo_modmap_def demo_state_def x11_defs Let_def)

text \<open>
  C4, as the code has it. A call that cannot open the display or that fails to resolve a
  character never registers a handler, and the registration is the one before the
  call. A call that reaches the injection phase ends, with or without server errors,
  with Xlib's default handler registered. So this file's handler is never left
  registered, and the registration is unchanged by the call whenever it was the
  default one before.
\<close>

theorem DoSendString_handler_after:
  "xerror_handler (snd (DoSendString srv u str method delayMS s))
     = (if XOpenDisplay srv \<and> (\<forall>wc\<in>set str. wc \<noteq> 0x0B \<longrightarrow> resolves srv u wc)
        then DefaultHandler else xerror_handler s)"
proof (cases "XOpenDisplay srv")
  case False
  then show ?thesis by (simp add: DoSendString_no_display)
next
  case True
  show ?thesis
  proof (cases "\<forall>wc\<in>set str. wc \<noteq> 0x0B \<longrightarrow> resolves srv u wc")
    case all: True
    from DoSendString_injects [OF True all, of "method" delayMS s] True all
    show ?thesis by auto
  next
    case False
    then have "\<exists>wc\<in>set str. wc \<noteq> 0x0B \<and> \<not> resolves srv u wc" by blast
    from DoSendString_aborts [OF True this, of "method" delayMS s] True False
    show ?thesis by auto
  qed
qed

theorem DoSendString_handler_after_witness:
  "xerror_handler (snd (DoSendString demo_server demo_unicode2keysym [0x61, 0x0B, 0x21]
      ATMETHOD_XSENDKEYS 10 demo_state)) = DefaultHandler
   \<and> xerror_handler (snd (DoSendString demo_server demo_unicode2keysym [0x61, 0x62]
      ATMETHOD_XSENDKEYS 10 demo_state)) = OtherHandler 1"
  using DoSendString_handler_after [of demo_server demo_unicode2keysym "[0x61, 0x0B, 0x21]"
      ATMETHOD_XSENDKEYS 10 demo_state]
    DoSendString_handler_after [of demo_server demo_unicode2keysym "[0x61, 0x62]"
      ATMETHOD_XSENDKEYS 10 demo_state]
  by (simp add: resolves_def wchar2keysym_def NoSymbol_def demo_server_def demo_state_def)

text \<open>
  C5. The candidate list starts with no modifier and shift, in this order, and whatever
  the loop over \<^verbatim>\<open>XK_Mode_switch\<close> and \<^verbatim>\<open>XK_ISO_Level3_Shift\<close> adds comes after them and is
  neither of the two. One round of that loop keeps the list it is given as a prefix and
  appends to it only if the modifier found is nonzero and its mask is not in the list
  yet. For a keycode whose symbol list holds the target at index \<open>i\<close>, within both
  lists, and at no smaller index, the result is the candidate at index \<open>i\<close>: no
  modifier for index 0, shift for index 1.
\<close>

theorem modifier_search_order:
  "(\<exists>extras. candidate_masks srv = [0, ShiftMask] @ extras
       \<and> 0 \<notin> set extras \<and> ShiftMask \<notin> set extras)
   \<and> (\<exists>extra. add_extra_mask srv masks s = masks @ extra
       \<and> (extra \<noteq> [] \<longrightarrow>
            FindModifierMask srv s \<noteq> 0 \<and> 2 ^ FindModifierMask srv s \<notin> set masks))
   \<and> (XGetKeyboardMapping srv code = Some symlist
       \<and> i < length symlist \<and> i < length (candidate_masks srv)
       \<and> symlist ! i = keysym \<and> (\<forall>j<i. symlist ! j \<noteq> keysym)
       \<longrightarrow> CalcModifiersForKeysym srv code keysym = Inr (candidate_masks srv ! i))"
proof (intro conjI impI)
  show "\<exists>extras. candidate_masks srv = [0, ShiftMask] @ extras
       \<and> 0 \<notin> set extras \<and> ShiftMask \<notin> set extras"
    by (rule candidate_masks_form)
  from add_extra_mask_form [of srv masks s]
  show "\<exists>extra. add_extra_mask srv masks s = masks @ extra
       \<and> (extra \<noteq> [] \<longrightarrow>
            FindModifierMask srv s \<noteq> 0 \<and> 2 ^ FindModifierMask srv s \<notin> set masks)"
    by blast
  assume "XGetKeyboardMapping srv code = Some symlist
       \<and> i < length symlist \<and> i < length (candidate_masks srv)
       \<and> symlist ! i = keysym \<and> (\<forall>j<i. symlist ! j \<noteq> keysym)"
  then show "CalcModifiersForKeysym srv code keysym = Inr (candidate_masks srv ! i)"
    by (simp add: CalcModifiersForKeysym_first_match)
qed

theorem modifier_search_order_witness:
  "CalcModifiersForKeysym demo_server 38 0x61 = Inr 0
   \<and> CalcModifiersForKeysym demo_server 38 0x41 = Inr ShiftMask
   \<and> add_extra_mask demo_server [0, 1] XK_ISO_Level3_Shift = [0, 1, 128, 129]
   \<and> add_extra_mask demo_server [0, 1] XK_Mode_switch = [0, 1]"
proof -
  have none: "(\<forall>j<0::nat. [0x61, 0x41, 0x61, 0x41::nat] ! j \<noteq> 0x61)
    \<and> (\<forall>j<1::nat. [0x61, 0x41, 0x61, 0x41::nat] ! j \<noteq> 0x41)"
    by simp
  have extra: "add_extra_mask demo_server [0, 1] XK_ISO_Level3_Shift = [0, 1, 128, 129]
    \<and> add_extra_mask demo_server [0, 1] XK_Mode_switch = [0, 1]"
    by (simp add: add_extra_mask_def demo_FindModifierMask Let_def)
  from none extra
    modifier_search_order [of demo_server "[0, 1]" XK_ISO_Level3_Shift 38
      "[0x61, 0x41, 0x61, 0x41]" 0 "0x61"]
    modifier_search_order [of demo_server "[0, 1]" XK_Mode_switch 38
      "[0x61, 0x41, 0x61, 0x41]" 1 "0x41"]
  show ?thesis
    by (simp add: candidate_masks_demo demo_keyboard_mapping ShiftMask_def)
qed

text \<open>
  C6. A call that opens the display and resolves every character takes the XTest path
  exactly when the server reports the XTEST extension and the caller has not passed
  \<^verbatim>\<open>ATMETHOD_XSENDKEYS\<close>, and the \<^verbatim>\<open>XSendEvent\<close> path exactly otherwise; in both cases
  \<^verbatim>\<open>DoSendString\<close> returns. The requests that the call adds to the trace tell the path:
  when the string has a character other than the vertical tab, they contain a key
  event, and every key event among them is an \<^verbatim>\<open>XTestFakeKeyEvent\<close> on the XTest path
  and an \<^verbatim>\<open>XSendEvent\<close> on the other; the bracketing \<^verbatim>\<open>XTestGrabControl\<close> resp. \<^verbatim>\<open>XSync\<close>
  follows the same choice, also for a string without such a character.
  \<^verbatim>\<open>UseXTest\<close> asks the server on its first call in the process and answers from its
  statics afterwards; the hypothesis on the statics holds before the first call
  (\<^verbatim>\<open>checked\<close> is 0) and, by the last two conjuncts, after every call to the same server.
\<close>

theorem strategy_selection:
  assumes "XOpenDisplay srv" and "\<forall>wc\<in>set str. wc \<noteq> 0x0B \<longrightarrow> resolves srv u wc"
    and "checked s \<longrightarrow> useXTest s = XQueryExtension_XTEST srv"
  shows "\<exists>new. fst (DoSendString srv u str method delayMS s) = Returned
     \<and> requests (snd (DoSendString srv u str method delayMS s)) = requests s @ new
     \<and> ((\<exists>r\<in>set new. native_key_event r)
          \<longleftrightarrow> (XQueryExtension_XTEST srv \<and> method \<noteq> ATMETHOD_XSENDKEYS)
               \<and> (\<exists>wc\<in>set str. wc \<noteq> 0x0B))
     \<and> ((\<exists>r\<in>set new. fallback_key_event r)
          \<longleftrightarrow> \<not> (XQueryExtension_XTEST srv \<and> method \<noteq> ATMETHOD_XSENDKEYS)
               \<and> (\<exists>wc\<in>set str. wc \<noteq> 0x0B))
     \<and> ((\<exists>r\<in>set new. native_request r)
          \<longleftrightarrow> XQueryExtension_XTEST srv \<and> method \<noteq> ATMETHOD_XSENDKEYS)
     \<and> ((\<exists>r\<in>set new. fallback_request r)
          \<longleftrightarrow> \<not> (XQueryExtension_XTEST srv \<and> method \<noteq> ATMETHOD_XSENDKEYS))
     \<and> checked (snd (DoSendString srv u str method delayMS s))
     \<and> useXTest (snd (DoSendString srv u str method delayMS s)) = XQueryExtension_XTEST srv"
proof -
  define s4 where
    "s4 = s\<lparr>errorString := [], xerror_handler := AutotypeErrorHandler, error_detected := False\<rparr>"
  from DoSendString_injects_length [OF assms(1,2), of "method" delayMS s]
  obtain kps where kps: "DoSendString srv u str method delayMS s
      = (Returned, (inject srv method delayMS kps s4)\<lparr>xerror_handler := DefaultHandler\<rparr>)"
    and len: "length kps = length (filter (\<lambda>wc. wc \<noteq> 0x0B) str)"
    by (auto simp: s4_def)
  have "kps \<noteq> [] \<longleftrightarrow> filter (\<lambda>wc. wc \<noteq> 0x0B) str \<noteq> []"
    using len by (metis length_0_conv)
  then have retained: "kps \<noteq> [] \<longleftrightarrow> (\<exists>wc\<in>set str. wc \<noteq> 0x0B)"
    by (simp add: filter_empty_conv)
  from assms(3) have "checked s4 \<longrightarrow> useXTest s4 = XQueryExtension_XTEST srv"
    and "\<not> error_detected s4"
    by (simp_all add: s4_def)
  from inject_requests [OF this, of "method" delayMS kps]
  obtain new where new: "requests (inject srv method delayMS kps s4) = requests s4 @ new"
    "checked (inject srv method delayMS kps s4)"
    "useXTest (inject srv method delayMS kps s4) = XQueryExtension_XTEST srv"
    "(\<exists>r\<in>set new. native_request r)
       \<longleftrightarrow> XQueryExtension_XTEST srv \<and> method \<noteq> ATMETHOD_XSENDKEYS"
    "(\<exists>r\<in>set new. fallback_request r)
       \<longleftrightarrow> \<not> (XQueryExtension_XTEST srv \<and> method \<noteq> ATMETHOD_XSENDKEYS)"
    "(\<exists>r\<in>set new. native_key_event r)
       \<longleftrightarrow> (XQueryExtension_XTEST srv \<and> method \<noteq> ATMETHOD_XSENDKEYS) \<and> kps \<noteq> []"
    "(\<exists>r\<in>set new. fallback_key_event r)
       \<longleftrightarrow> \<not> (XQueryExtension_XTEST srv \<and> method \<noteq> ATMETHOD_XSENDKEYS) \<and> kps \<noteq> []"
    by blast
  have req: "requests s4 = requests s" by (simp add: s4_def)
  from kps new(1) req
  have a: "fst (DoSendString srv u str method delayMS s) = Returned
    \<and> requests (snd (DoSendString srv u str method delayMS s)) = requests s @ new"
    by simp
  from kps new(2,3)
  have b: "checked (snd (DoSendString srv u str method delayMS s))
    \<and> useXTest (snd (DoSendString srv u str method delayMS s)) = XQueryExtension_XTEST srv"
    by simp
  from a b new(4,5) new(6,7) [unfolded retained] show ?thesis by blast
qed

theorem strategy_selection_witness:
  "list_ex fallback_key_event (requests (snd (DoSendString demo_server demo_unicode2keysym
      [0x61, 0x41] ATMETHOD_XSENDKEYS 10 demo_state)))
   \<and> \<not> list_ex native_key_event (requests (snd (DoSendString demo_server demo_unicode2keysym
      [0x61, 0x41] ATMETHOD_XSENDKEYS 10 demo_state)))
   \<and> \<not> list_ex native_request (requests (snd (DoSendString demo_server demo_unicode2keysym
      [0x61, 0x41] ATMETHOD_XSENDKEYS 10 demo_state)))
   \<and> list_ex native_key_event (requests (snd (DoSendString demo_server demo_unicode2keysym
      [0x61, 0x41] ATMETHOD_PREFER_NATIVE 10 demo_state)))
   \<and> \<not> list_ex fallback_key_event (requests (snd (DoSendString demo_server demo_unicode2keysym
      [0x61, 0x41] ATMETHOD_PREFER_NATIVE 10 demo_state)))
   \<and> \<not> list_ex fallback_request (requests (snd (DoSendString demo_server demo_unicode2keysym
      [0x61, 0x41] ATMETHOD_PREFER_NATIVE 10 demo_state)))
   \<and> list_ex fallback_key_event (requests (snd (DoSendString
      (demo_server\<lparr>XQueryExtension_XTEST := False\<rparr>) demo_unicode2keysym
      [0x61, 0x41] ATMETHOD_PREFER_NATIVE 10 demo_state)))
   \<and> \<not> list_ex native_key_event (requests (snd (DoSendString
      (demo_server\<lparr>XQueryExtension_XTEST := False\<rparr>) demo_unicode2keysym
      [0x61, 0x41] ATMETHOD_PREFER_NATIVE 10 demo_state)))
   \<and> list_ex native_key_event (requests (snd (DoSendString demo_server demo_unicode2keysym
      [0x61, 0x41] ATMETHOD_PREFER_NATIVE 10 (demo_state\<lparr>checked := True, useXTest := True\<rparr>))))
   \<and> \<not> list_ex native_key_event (requests (snd (DoSendString demo_server demo_unicode2keysym
      [0x0B] ATMETHOD_PREFER_NATIVE 10 demo_state)))
   \<and> list_ex native_request (requests (snd (DoSendString demo_server demo_unicode2keysym
      [0x0B] ATMETHOD_PREFER_NATIVE 10 demo_state)))
   \<and> requests (snd (DoSendString demo_server demo_unicode2keysym
      [0x41] ATMETHOD_PREFER_NATIVE 10 demo_state))
     = [XTestGrabControl True,
        XTestFakeKeyEvent 50 True 0, XTestFakeKeyEvent 38 True 0,
        XTestFakeKeyEvent 38 False 0, XTestFakeKeyEvent 50 False 0, XFlush, sleep_ms 10,
        XTestGrabControl False]
   \<and> requests (snd (DoSendString demo_server demo_unicode2keysym
      [0x41] ATMETHOD_XSENDKEYS 10 demo_state))
     = [XSendEvent 7 True KeyPressMask
          \<lparr>ev_type = KeyPress, ev_window = 7, ev_keycode = 38, ev_state = 1, ev_time = 0\<rparr>,
        XSendEvent 7 True KeyPressMask
          \<lparr>ev_type = KeyRelease, ev_window = 7, ev_keycode = 38, ev_state = 1, ev_time = 0\<rparr>,
        XFlush, sleep_ms 10,
        XSync False]"
proof -
  have native_trace: "requests (snd (DoSendString demo_server demo_unicode2keysym
      [0x41] ATMETHOD_PREFER_NATIVE 10 demo_state))
     = [XTestGrabControl True,
        XTestFakeKeyEvent 50 True 0, XTestFakeKeyEvent 38 True 0,
        XTestFakeKeyEvent 38 False 0, XTestFakeKeyEvent 50 False 0, XFlush, sleep_ms 10,
        XTestGrabControl False]"
    by (simp add: DoSendString_def inject_def UseXTest_def deliver_xerrors_def issue_def
        CalcModifiersForKeysym_def candidate_masks_def add_extra_mask_def FindModifierMask_def
        FindModifierMask_loop.simps std_find.simps wchar2keysym_def
        XTest_SendKeyEvent_def XTest_SendEvent_def
        demo_server_def demo_modmap_def demo_state_def x11_defs Let_def)
  have fallback_trace: "requests (snd (DoSendString demo_server demo_unicode2keysym
      [0x41] ATMETHOD_XSENDKEYS 10 demo_state))
     = [XSendEvent 7 True KeyPressMask
          \<lparr>ev_type = KeyPress, ev_window = 7, ev_keycode = 38, ev_state = 1, ev_time = 0\<rparr>,
        XSendEvent 7 True KeyPressMask
          \<lparr>ev_type = KeyRelease, ev_window = 7, ev_keycode = 38, ev_state = 1, ev_time = 0\<rparr>,
        XFlush, sleep_ms 10,
        XSync False]"
    by (simp add: DoSendString_def inject_def UseXTest_def deliver_xerrors_def issue_def
        CalcModifiersForKeysym_def candidate_masks_def add_extra_mask_def FindModifierMask_def
        FindModifierMask_loop.simps std_find.simps wchar2keysym_def
        XSendKeys_SendKeyEvent_def XSendKeys_SendEvent_def
        demo_server_def demo_modmap_def demo_state_def x11_defs Let_def)
  have r: "\<forall>wc\<in>set [0x61, 0x41]. wc \<noteq> 0x0B \<longrightarrow> resolves demo_server demo_unicode2keysym wc"
    by (simp add: resolves_def wchar2keysym_def NoSymbol_def demo_server_def)
  have r': "\<forall>wc\<in>set [0x61, 0x41]. wc \<noteq> 0x0B \<longrightarrow>
      resolves (demo_server\<lparr>XQueryExtension_XTEST := False\<rparr>) demo_unicode2keysym wc"
    by (simp add: resolves_def wchar2keysym_def NoSymbol_def demo_server_def)
  have rv: "\<forall>wc\<in>set [0x0B]. wc \<noteq> 0x0B \<longrightarrow> resolves demo_server demo_unicode2keysym wc"
    by simp
  have d: "XOpenDisplay demo_server" "XOpenDisplay (demo_server\<lparr>XQueryExtension_XTEST := False\<rparr>)"
    "XQueryExtension_XTEST demo_server"
    by (simp_all add: demo_server_def)
  have c: "checked demo_state \<longrightarrow> useXTest demo_state = XQueryExtension_XTEST demo_server"
    "checked demo_state \<longrightarrow>
       useXTest demo_state = XQueryExtension_XTEST (demo_server\<lparr>XQueryExtension_XTEST := False\<rparr>)"
    "requests demo_state = []"
    by (simp_all add: demo_state_def)
  have c': "checked (demo_state\<lparr>checked := True, useXTest := True\<rparr>) \<longrightarrow>
      useXTest (demo_state\<lparr>checked := True, useXTest := True\<rparr>) = XQueryExtension_XTEST demo_server"
    "requests (demo_state\<lparr>checked := True, useXTest := True\<rparr>) = []"
    by (simp_all add: demo_state_def demo_server_def)
  from strategy_selection [OF d(1) r c'(1), of ATMETHOD_PREFER_NATIVE 10]
    strategy_selection [OF d(1) r c(1), of ATMETHOD_XSENDKEYS 10]
    strategy_selection [OF d(1) r c(1), of ATMETHOD_PREFER_NATIVE 10]
    strategy_selection [OF d(2) r' c(2), of ATMETHOD_PREFER_NATIVE 10]
    strategy_selection [OF d(1) rv c(1), of ATMETHOD_PREFER_NATIVE 10]
  have "list_ex fallback_key_event (requests (snd (DoSendString demo_server demo_unicode2keysym
      [0x61, 0x41] ATMETHOD_XSENDKEYS 10 demo_state)))
   \<and> \<not> list_ex native_key_event (requests (snd (DoSendString demo_server demo_unicode2keysym
      [0x61, 0x41] ATMETHOD_XSENDKEYS 10 demo_state)))
   \<and> \<not> list_ex native_request (requests (snd (DoSendString demo_server demo_unicode2keysym
      [0x61, 0x41] ATMETHOD_XSENDKEYS 10 demo_state)))
   \<and> list_ex native_key_event (requests (snd (DoSendString demo_server demo_unicode2keysym
      [0x61, 0x41] ATMETHOD_PREFER_NATIVE 10 demo_state)))
   \<and> \<not> list_ex fallback_key_event (requests (snd (DoSendString demo_server demo_unicode2keysym
      [0x61, 0x41] ATMETHOD_PREFER_NATIVE 10 demo_state)))
   \<and> \<not> list_ex fallback_request (requests (snd (DoSendString demo_server demo_unicode2keysym
      [0x61, 0x41] ATMETHOD_PREFER_NATIVE 10 demo_state)))
   \<and> list_ex fallback_key_event (requests (snd (DoSendString
      (demo_server\<lparr>XQueryExtension_XTEST := False\<rparr>) demo_unicode2keysym
      [0x61, 0x41] ATMETHOD_PREFER_NATIVE 10 demo_state)))
   \<and> \<not> list_ex native_key_event (requests (snd (DoSendString
      (demo_server\<lparr>XQueryExtension_XTEST := False\<rparr>) demo_unicode2keysym
      [0x61, 0x41] ATMETHOD_PREFER_NATIVE 10 demo_state)))
   \<and> list_ex native_key_event (requests (snd (DoSendString demo_server demo_unicode2keysym
      [0x61, 0x41] ATMETHOD_PREFER_NATIVE 10 (demo_state\<lparr>checked := True, useXTest := True\<rparr>))))
   \<and> \<not> list_ex native_key_event (requests (snd (DoSendString demo_server demo_unicode2keysym
      [0x0B] ATMETHOD_PREFER_NATIVE 10 demo_state)))
   \<and> list_ex native_request (requests (snd (DoSendString demo_server demo_unicode2keysym
      [0x0B] ATMETHOD_PREFER_NATIVE 10 demo_state)))"
    by (auto simp: list_ex_iff c(3) c'(2) d(3))
  with native_trace fallback_trace show ?thesis by simp
qed

text \<open>
  C7. If the keyboard-mapping query returns no symbol list for the keycode, or no index
  within both the symbol list and the candidate list holds the target symbolic key,
  \<^verbatim>\<open>CalcModifiersForKeysym\<close> returns 0, no modifiers, and the resolution loop goes on to
  the next character with a keypress of that keycode and an empty modifier state.
\<close>

theorem best_effort_default:
  assumes "\<forall>symlist. XGetKeyboardMapping srv code = Some symlist \<longrightarrow>
      (\<forall>i. i < length (candidate_masks srv) \<and> i < length symlist \<longrightarrow> symlist ! i \<noteq> keysym)"
  shows "CalcModifiersForKeysym srv code keysym = Inr 0
    \<and> (wc \<noteq> 0x0B \<and> wchar2keysym u wc = keysym \<and> keysym \<noteq> NoSymbol
        \<and> XKeysymToKeycode srv keysym = code \<and> code \<noteq> 0
       \<longrightarrow> resolve_keypresses srv u (wc # rest) keypresses s
           = resolve_keypresses srv u rest (keypresses @ [\<lparr>kp_code = code, kp_state = 0\<rparr>]) s)"
proof -
  from CalcModifiersForKeysym_no_match [OF assms]
  have zero: "CalcModifiersForKeysym srv code keysym = Inr 0" .
  then show ?thesis by (auto simp: Let_def)
qed

theorem best_effort_default_witness:
  "CalcModifiersForKeysym demo_server 10 0xa1 = Inr 0
   \<and> CalcModifiersForKeysym demo_server 11 0x32 = Inr 0
   \<and> resolve_keypresses demo_server demo_unicode2keysym [0xa1] [] demo_state
       = (Resolved [\<lparr>kp_code = 10, kp_state = 0\<rparr>], demo_state)"
proof -
  have h1: "\<forall>symlist. XGetKeyboardMapping demo_server 10 = Some symlist \<longrightarrow>
      (\<forall>i. i < length (candidate_masks demo_server) \<and> i < length symlist
         \<longrightarrow> symlist ! i \<noteq> 0xa1)"
  proof (intro allI impI)
    fix symlist i
    assume "XGetKeyboardMapping demo_server 10 = Some symlist"
    then have "symlist = [0x31, 0x21, 0x31, 0x21, 0xb9, 0xa1]"
      by (simp add: demo_keyboard_mapping)
    then have "0xa1 \<notin> set (take (length (candidate_masks demo_server)) symlist)"
      by (simp add: candidate_masks_demo)
    from not_in_take_nth [OF this]
    show "i < length (candidate_masks demo_server) \<and> i < length symlist \<Longrightarrow> symlist ! i \<noteq> 0xa1"
      by blast
  qed
  have h2: "\<forall>symlist. XGetKeyboardMapping demo_server 11 = Some symlist \<longrightarrow>
      (\<forall>i. i < length (candidate_masks demo_server) \<and> i < length symlist
         \<longrightarrow> symlist ! i \<noteq> 0x32)"
    by (simp add: demo_keyboard_mapping)
  have k: "XKeysymToKeycode demo_server 0xa1 = 10"
    by (simp add: demo_server_def)
  from k best_effort_default [OF h1, of "0xa1" demo_unicode2keysym "[]" "[]" demo_state]
    best_effort_default [OF h2, of 0 demo_unicode2keysym "[]" "[]" demo_state]
  show ?thesis
    by (simp add: wchar2keysym_def NoSymbol_def)
qed

text \<open>
  C8. Vertical tabs are deleted before resolution: a call on a string has the outcome
  and the final state (error flag, error text, handler, trace of requests) of the
  call on the string with its vertical tabs removed.
\<close>

theorem vertical_tab_filtering:
  "DoSendString srv u str method delayMS s
     = DoSendString srv u (filter (\<lambda>wc. wc \<noteq> 0x0B) str) method delayMS s
   \<and> SendString srv u str method delayMS s
     = SendString srv u (filter (\<lambda>wc. wc \<noteq> 0x0B) str) method delayMS s"
  by (simp add: SendString_def DoSendString_def resolve_keypresses_filter Let_def)

theorem vertical_tab_filtering_witness:
  "SendString demo_server demo_unicode2keysym [0x61, 0x31, 0x0B, 0x21, 0x41]
      ATMETHOD_PREFER_NATIVE 10 demo_state
   = SendString demo_server demo_unicode2keysym [0x61, 0x31, 0x21, 0x41]
      ATMETHOD_PREFER_NATIVE 10 demo_state"
  using vertical_tab_filtering [of demo_server demo_unicode2keysym
      "[0x61, 0x31, 0x0B, 0x21, 0x41]" ATMETHOD_PREFER_NATIVE 10 demo_state]
  by simp

text \<open>
  C9. \<^verbatim>\<open>wchar2keysym\<close> is a total function. It returns \<^verbatim>\<open>NoSymbol\<close> exactly when its
  input is below \<open>0x20\<close> and not one of backspace, tab, linefeed, carriage return and
  escape, or exceeds \<open>0x10FFFF\<close>. Every code point from \<open>0x20\<close> to \<open>0xFF\<close>, those from
  \<open>0x7F\<close> to \<open>0x9F\<close> included, maps to itself. Every point from \<open>0x100\<close> to \<open>0x10FFFF\<close>
  maps to the entry of the lookup table or, when the table has none, to the code point
  ORed with \<open>0x01000000\<close>.
\<close>

theorem wchar2keysym_characterization:
  "(wchar2keysym u wc = NoSymbol \<longleftrightarrow>
      (wc < 0x20 \<and> wc \<notin> {0x08, 0x09, 0x0A, 0x0D, 0x1B}) \<or> wc > 0x10FFFF)
   \<and> (0x20 \<le> wc \<and> wc \<le> 0xFF \<longrightarrow> wchar2keysym u wc = nat wc)
   \<and> (0x100 \<le> wc \<and> wc \<le> 0x10FFFF \<longrightarrow>
        wchar2keysym u wc = (if u wc \<noteq> NoSymbol then u wc else nat (wc OR 0x01000000)))"
  by (simp add: wchar2keysym_NoSymbol_iff wchar2keysym_latin1 wchar2keysym_table)

theorem wchar2keysym_characterization_witness:
  "wchar2keysym demo_unicode2keysym 0x9F = 0x9F
   \<and> wchar2keysym demo_unicode2keysym 0x20AC = 0x20ac
   \<and> wchar2keysym demo_unicode2keysym 0x3B1 = 0x10003B1
   \<and> wchar2keysym demo_unicode2keysym 0x110000 = NoSymbol
   \<and> wchar2keysym demo_unicode2keysym 0x0B = NoSymbol"
  using wchar2keysym_characterization [of demo_unicode2keysym "0x9F"]
    wchar2keysym_characterization [of demo_unicode2keysym "0x20AC"]
    wchar2keysym_characterization [of demo_unicode2keysym "0x3B1"]
    wchar2keysym_characterization [of demo_unicode2keysym "0x110000"]
    wchar2keysym_characterization [of demo_unicode2keysym "0x0B"]
  by (simp add: demo_unicode2keysym_def NoSymbol_def)

text \<open>
  C10. \<^verbatim>\<open>CalcModifiersForKeysym\<close> never reads outside an array: it returns a value for every
  server, keycode and symbolic key. The search over a symbol list, bounded by the
  smaller of the two lengths, reads within the list and ends at an index that is at
  most that bound; an index different from the bound is within both the symbol list
  and the candidate list, so \<^verbatim>\<open>masks[match_index]\<close> is read in range.
\<close>

theorem CalcModifiersForKeysym_in_bounds:
  "(\<exists>modifiers. CalcModifiersForKeysym srv code keysym = Inr modifiers)
   \<and> (\<exists>match_index.
        std_find symlist 0 (min (length masks) (length symlist)) keysym = Inr match_index
        \<and> match_index \<le> min (length masks) (length symlist)
        \<and> (match_index \<noteq> min (length masks) (length symlist)
             \<longrightarrow> match_index < length masks \<and> match_index < length symlist))"
proof
  show "\<exists>modifiers. CalcModifiersForKeysym srv code keysym = Inr modifiers"
    by (rule CalcModifiersForKeysym_Inr)
  let ?n = "min (length masks) (length symlist)"
  from std_find_spec [of ?n symlist 0 keysym]
  obtain j where j: "std_find symlist 0 ?n keysym = Inr j" "j \<le> ?n" by auto
  from j(2) have "j \<noteq> ?n \<longrightarrow> j < length masks \<and> j < length symlist" by auto
  with j show "\<exists>match_index. std_find symlist 0 ?n keysym = Inr match_index
        \<and> match_index \<le> ?n
        \<and> (match_index \<noteq> ?n \<longrightarrow> match_index < length masks \<and> match_index < length symlist)"
    by blast
qed

theorem CalcModifiersForKeysym_in_bounds_witness:
  "CalcModifiersForKeysym demo_server 10 0x21 = Inr 1
   \<and> std_find [0x31, 0x21, 0x31, 0x21, 0xb9, 0xa1] 0 (min 4 6) 0x21 = Inr 1
   \<and> std_find [0x31, 0x21, 0x31, 0x21, 0xb9, 0xa1] 0 (min 4 6) 0xa1 = Inr 4
   \<and> std_find [0xffe1] 0 (min 4 1) 0x21 = Inr 1"
  using CalcModifiersForKeysym_in_bounds [of demo_server 10 "0x21"
      "[0x31, 0x21, 0x31, 0x21, 0xb9, 0xa1]" "[0, 1, 128, 129]"]
  by (simp add: CalcModifiersForKeysym_def candidate_masks_demo demo_keyboard_mapping
      std_find.simps Let_def)

end
